theory Spec2Isabelle
  imports Complex_Main "HOL-Library.Signed_Division"
begin

section \<open>Fan cooling controller: the embedding of \<open>fan_cooling_control.ino\<close>\<close>

subsection \<open>Configuration constants\<close>

text \<open>
  The sketch fixes its configuration in global constants: the temperature thresholds are
  \<open>const float\<close>, the PWM limits are \<open>const int\<close>. All five values are small integers and
  therefore exact as binary32 numbers.
\<close>

definition TEMP_FAN_ON :: real where "TEMP_FAN_ON = 85"
definition TEMP_FAN_MAX :: real where "TEMP_FAN_MAX = 95"
definition TEMP_HYSTERESIS :: real where "TEMP_HYSTERESIS = 5"

definition PWM_MIN :: int where "PWM_MIN = 100"
definition PWM_MAX :: int where "PWM_MAX = 255"

definition HIGH :: bool where "HIGH = True"
definition LOW :: bool where "LOW = False"

subsection \<open>The \<open>float\<close> argument\<close>

text \<open>
  \<open>controlFan\<close> takes a C++ \<open>float\<close>. A float is a finite number, an infinity or a NaN; the
  finite ones are modelled by the real number they denote. The sketch compares the
  temperature with constants, subtracts a constant, multiplies by ten and converts to
  \<open>long\<close>. Comparisons are exact in IEEE arithmetic, an ordered comparison with a NaN is
  false. The subtraction and the multiplication are only evaluated for
  \<open>85 \<le> temp < 95\<close>. A binary32 number in that range is \<open>k / 131072\<close> for an integer
  \<open>k\<close> (its unit in the last place is \<open>1 / 131072\<close>), so \<open>temp - 85\<close> is
  \<open>j / 131072\<close> with \<open>0 \<le> j < 1310720\<close> and \<open>(temp - 85) * 10\<close> is
  \<open>(10 * j) / 131072\<close> with \<open>10 * j < 16777216\<close>: both numerators fit the 24-bit
  significand, the float operations return the exact real result, and the model computes
  with exact reals.
\<close>

datatype cfloat = Finite real | PosInf | NegInf | NaN

text \<open>\<open>a >= c\<close> and \<open>a < c\<close> for a finite constant \<open>c\<close>.\<close>

fun float_ge :: "cfloat \<Rightarrow> real \<Rightarrow> bool" where
  "float_ge (Finite x) c = (c \<le> x)"
| "float_ge PosInf c = True"
| "float_ge NegInf c = False"
| "float_ge NaN c = False"

fun float_lt :: "cfloat \<Rightarrow> real \<Rightarrow> bool" where
  "float_lt (Finite x) c = (x < c)"
| "float_lt PosInf c = False"
| "float_lt NegInf c = True"
| "float_lt NaN c = False"

text \<open>\<open>a - c\<close> for a finite constant \<open>c\<close>, and \<open>a * c\<close> for a finite constant \<open>c > 0\<close>.\<close>

fun float_sub :: "cfloat \<Rightarrow> real \<Rightarrow> cfloat" where
  "float_sub (Finite x) c = Finite (x - c)"
| "float_sub PosInf c = PosInf"
| "float_sub NegInf c = NegInf"
| "float_sub NaN c = NaN"

fun float_mul :: "cfloat \<Rightarrow> real \<Rightarrow> cfloat" where
  "float_mul (Finite x) c = Finite (x * c)"
| "float_mul PosInf c = PosInf"
| "float_mul NegInf c = NegInf"
| "float_mul NaN c = NaN"

text \<open>
  The implicit conversion of a \<open>float\<close> argument to the \<open>long\<close> parameter of \<open>map\<close>
  discards the fractional part (truncation towards zero). For a value outside the range of
  \<open>long\<close>, an infinity or a NaN the conversion is undefined in C++; \<open>controlFan\<close> only
  converts values in \<open>[0, 100]\<close> (lemma \<open>tenths_range\<close> below), and the model
  returns 0 for the non-finite cases it never reaches.
\<close>

fun float_to_long :: "cfloat \<Rightarrow> int" where
  "float_to_long (Finite x) = (if 0 \<le> x then \<lfloor>x\<rfloor> else \<lceil>x\<rceil>)"
| "float_to_long PosInf = 0"
| "float_to_long NegInf = 0"
| "float_to_long NaN = 0"

subsection \<open>Arduino's \<open>map\<close>\<close>

text \<open>
  The Arduino core defines
  \<^verbatim>\<open>long map(long x, long in_min, long in_max, long out_min, long out_max) {
    return (x - in_min) * (out_max - out_min) / (in_max - in_min) + out_min; }\<close>
  with C's truncating division, here \<open>sdiv\<close>. \<open>long\<close> has 32 bits; the one call in
  \<open>controlFan\<close> stays far inside that range (lemma \<open>map_long_no_overflow\<close>), so the
  model computes on \<open>int\<close>.
\<close>

definition map_long :: "int \<Rightarrow> int \<Rightarrow> int \<Rightarrow> int \<Rightarrow> int \<Rightarrow> int" where
  "map_long x in_min in_max out_min out_max =
     (x - in_min) * (out_max - out_min) sdiv (in_max - in_min) + out_min"

subsection \<open>State and output ports\<close>

text \<open>
  The state that \<open>controlFan\<close> reads or writes: the global \<open>fanActive\<close>, the level of the
  relay pin (\<open>FAN_RELAY_PIN\<close>, \<open>True\<close> for \<open>HIGH\<close>) and the duty value last written to the
  PWM pin (\<open>FAN_PWM_PIN\<close>). The global \<open>currentTemp\<close> is written by \<open>loop\<close> before every
  call and passed as the argument; \<open>controlFan\<close> itself never touches it.
\<close>

record controller =
  fanActive :: bool
  relayPin :: bool
  pwmPin :: int

text \<open>\<open>digitalWrite(FAN_RELAY_PIN, level)\<close> and \<open>analogWrite(FAN_PWM_PIN, value)\<close>.\<close>

definition digitalWrite_relay :: "bool \<Rightarrow> controller \<Rightarrow> controller" where
  "digitalWrite_relay level s = s\<lparr>relayPin := level\<rparr>"

definition analogWrite_pwm :: "int \<Rightarrow> controller \<Rightarrow> controller" where
  "analogWrite_pwm v s = s\<lparr>pwmPin := v\<rparr>"

text \<open>
  The state after \<open>setup()\<close>: the initialiser \<open>fanActive = false\<close>,
  \<open>analogWrite(FAN_PWM_PIN, 0)\<close> and \<open>digitalWrite(FAN_RELAY_PIN, LOW)\<close>.
\<close>

definition setup_state :: controller where
  "setup_state = \<lparr>fanActive = False, relayPin = LOW, pwmPin = 0\<rparr>"

subsection \<open>\<open>controlFan\<close>\<close>

definition controlFan :: "cfloat \<Rightarrow> controller \<Rightarrow> controller" where
  "controlFan temp s =
     (if float_ge temp TEMP_FAN_MAX then
        analogWrite_pwm PWM_MAX (digitalWrite_relay HIGH (s\<lparr>fanActive := True\<rparr>))
      else if float_ge temp TEMP_FAN_ON then
        (let tempRange = TEMP_FAN_MAX - TEMP_FAN_ON;
             tempDelta = float_sub temp TEMP_FAN_ON;
             pwmValue = map_long (float_to_long (float_mul tempDelta 10)) 0
                          (float_to_long (Finite (tempRange * 10))) PWM_MIN PWM_MAX
         in analogWrite_pwm pwmValue (digitalWrite_relay HIGH (s\<lparr>fanActive := True\<rparr>)))
      else if float_lt temp (TEMP_FAN_ON - TEMP_HYSTERESIS) then
        analogWrite_pwm 0 (digitalWrite_relay LOW (s\<lparr>fanActive := False\<rparr>))
      else if fanActive s then
        analogWrite_pwm PWM_MIN s
      else
        analogWrite_pwm 0 s)"

text \<open>
  \<open>loop\<close> calls \<open>controlFan\<close> once per tick with the temperature just read. A run is the
  list of temperatures read; \<open>run\<close> gives the state after the last tick and \<open>trace\<close> the
  state after every tick.
\<close>

fun run :: "cfloat list \<Rightarrow> controller \<Rightarrow> controller" where
  "run [] s = s"
| "run (temp # temps) s = run temps (controlFan temp s)"

fun trace :: "cfloat list \<Rightarrow> controller \<Rightarrow> controller list" where
  "trace [] s = []"
| "trace (temp # temps) s = controlFan temp s # trace temps (controlFan temp s)"

text \<open>The states the sketch can be in: \<open>setup\<close>, then any number of ticks.\<close>

inductive reachable :: "controller \<Rightarrow> bool" where
  reachable_setup: "reachable setup_state"
| reachable_tick: "reachable s \<Longrightarrow> reachable (controlFan temp s)"

text \<open>
  The linear interpolation of the specification, on exact reals:
  \<open>minDrive + (maxDrive - minDrive) * (temp - onThreshold) / (maxThreshold - onThreshold)\<close>.
\<close>

definition linear_drive :: "real \<Rightarrow> real" where
  "linear_drive t =
     real_of_int PWM_MIN +
     real_of_int (PWM_MAX - PWM_MIN) * (t - TEMP_FAN_ON) / (TEMP_FAN_MAX - TEMP_FAN_ON)"

text \<open>
  The first argument of \<open>map\<close> in the interpolation branch, as a function of a finite
  temperature: the whole tenths of a degree above \<open>TEMP_FAN_ON\<close>. It only abbreviates
  that term in the lemmas below.
\<close>

definition tenths :: "real \<Rightarrow> int" where
  "tenths t = \<lfloor>(t - TEMP_FAN_ON) * 10\<rfloor>"

section \<open>Auxiliary facts\<close>

lemmas config_defs =
  TEMP_FAN_ON_def TEMP_FAN_MAX_def TEMP_HYSTERESIS_def PWM_MIN_def PWM_MAX_def HIGH_def LOW_def

lemmas port_defs = digitalWrite_relay_def analogWrite_pwm_def

text \<open>On non-negative operands C's truncating division is the flooring one.\<close>

lemma sdiv_nonneg: "0 \<le> a \<Longrightarrow> 0 < b \<Longrightarrow> a sdiv b = a div (b::int)"
  by (simp add: signed_divide_int_def sgn_if)

text \<open>In the interpolation band the value converted to \<open>long\<close> lies in \<open>[0, 99]\<close>.\<close>

lemma tenths_range:
  assumes "TEMP_FAN_ON \<le> t" "t < TEMP_FAN_MAX"
  shows "0 \<le> tenths t" "tenths t \<le> 99"
proof -
  have "0 \<le> (t - TEMP_FAN_ON) * 10" using assms by simp
  then show "0 \<le> tenths t" by (simp add: tenths_def)
  have "(t - TEMP_FAN_ON) * 10 < 100" using assms by (simp add: config_defs)
  then have "tenths t < 100" unfolding tenths_def by (simp add: floor_less_iff)
  then show "tenths t \<le> 99" by simp
qed

text \<open>
  The product inside \<open>map\<close> fits the 32-bit \<open>long\<close> and the result fits the 16-bit
  \<open>int pwmValue\<close>.
\<close>

lemma map_long_no_overflow:
  assumes "0 \<le> x" "x \<le> 100"
  shows "0 \<le> (x - 0) * (PWM_MAX - PWM_MIN)" "(x - 0) * (PWM_MAX - PWM_MIN) < 2 ^ 31"
    and "0 \<le> map_long x 0 100 PWM_MIN PWM_MAX" "map_long x 0 100 PWM_MIN PWM_MAX < 2 ^ 15"
proof -
  show a: "0 \<le> (x - 0) * (PWM_MAX - PWM_MIN)" using assms by (simp add: config_defs)
  show "(x - 0) * (PWM_MAX - PWM_MIN) < 2 ^ 31" using assms by (simp add: config_defs)
  have m: "map_long x 0 100 PWM_MIN PWM_MAX = 100 + x * 155 div 100"
    using a by (simp add: map_long_def sdiv_nonneg config_defs)
  show "0 \<le> map_long x 0 100 PWM_MIN PWM_MAX" unfolding m using assms by simp
  show "map_long x 0 100 PWM_MIN PWM_MAX < 2 ^ 15" unfolding m using assms by simp
qed

subsection \<open>The four branches of \<open>controlFan\<close>\<close>

lemma controlFan_max:
  "float_ge temp TEMP_FAN_MAX \<Longrightarrow>
   controlFan temp s = \<lparr>fanActive = True, relayPin = HIGH, pwmPin = PWM_MAX\<rparr>"
  by (simp add: controlFan_def port_defs)

lemma controlFan_band:
  assumes "TEMP_FAN_ON \<le> t" "t < TEMP_FAN_MAX"
  shows "controlFan (Finite t) s =
    \<lparr>fanActive = True, relayPin = HIGH, pwmPin = PWM_MIN + tenths t * (PWM_MAX - PWM_MIN) div 100\<rparr>"
proof -
  have r: "0 \<le> tenths t" using assms by (rule tenths_range)
  have "0 \<le> (t - TEMP_FAN_ON) * 10" using assms by simp
  then have c: "float_to_long (float_mul (float_sub (Finite t) TEMP_FAN_ON) 10) = tenths t"
    by (simp add: tenths_def)
  have d: "float_to_long (Finite ((TEMP_FAN_MAX - TEMP_FAN_ON) * 10)) = 100"
    by (simp add: config_defs)
  have "0 \<le> tenths t * (PWM_MAX - PWM_MIN)" using r by (simp add: config_defs)
  then have m: "map_long (tenths t) 0 100 PWM_MIN PWM_MAX = PWM_MIN + tenths t * (PWM_MAX - PWM_MIN) div 100"
    by (simp add: map_long_def sdiv_nonneg)
  have "\<not> float_ge (Finite t) TEMP_FAN_MAX" "float_ge (Finite t) TEMP_FAN_ON"
    using assms by simp_all
  then have "controlFan (Finite t) s =
      analogWrite_pwm (map_long (tenths t) 0 100 PWM_MIN PWM_MAX)
        (digitalWrite_relay HIGH (s\<lparr>fanActive := True\<rparr>))"
    by (simp only: controlFan_def Let_def if_True if_False c d)
  then show ?thesis
    by (simp add: port_defs m)
qed

lemma below_off_not_on:
  "float_lt temp (TEMP_FAN_ON - TEMP_HYSTERESIS) \<Longrightarrow>
   \<not> float_ge temp TEMP_FAN_ON \<and> \<not> float_ge temp TEMP_FAN_MAX"
  by (cases temp) (simp_all add: config_defs)

lemma controlFan_off:
  "float_lt temp (TEMP_FAN_ON - TEMP_HYSTERESIS) \<Longrightarrow>
   controlFan temp s = \<lparr>fanActive = False, relayPin = LOW, pwmPin = 0\<rparr>"
  using below_off_not_on [of temp] by (simp add: controlFan_def port_defs)

lemma controlFan_hold:
  "\<not> float_ge temp TEMP_FAN_ON \<Longrightarrow> \<not> float_lt temp (TEMP_FAN_ON - TEMP_HYSTERESIS) \<Longrightarrow>
   controlFan temp s = s\<lparr>pwmPin := (if fanActive s then PWM_MIN else 0)\<rparr>"
  by (cases temp) (simp_all add: controlFan_def port_defs config_defs)

lemma band_finite:
  "float_ge temp lo \<Longrightarrow> float_lt temp hi \<Longrightarrow> \<exists>t. temp = Finite t \<and> lo \<le> t \<and> t < hi"
  by (cases temp) simp_all

text \<open>Every call takes exactly one of the four branches; a NaN ends in the last one.\<close>

lemma controlFan_cases:
  obtains (max) "float_ge temp TEMP_FAN_MAX"
  | (band) t where "temp = Finite t" "TEMP_FAN_ON \<le> t" "t < TEMP_FAN_MAX"
  | (off) "float_lt temp (TEMP_FAN_ON - TEMP_HYSTERESIS)"
  | (hold) "\<not> float_ge temp TEMP_FAN_ON" "\<not> float_lt temp (TEMP_FAN_ON - TEMP_HYSTERESIS)"
proof (cases temp)
  case (Finite t)
  then show ?thesis using that by (cases "TEMP_FAN_MAX \<le> t"; cases "TEMP_FAN_ON \<le> t") auto
next
  case PosInf then show ?thesis using that by simp
next
  case NegInf then show ?thesis using that by simp
next
  case NaN then show ?thesis using that by simp
qed

lemma band_pwm_value:
  assumes "TEMP_FAN_ON \<le> t" "t < TEMP_FAN_MAX"
  shows "pwmPin (controlFan (Finite t) s) = PWM_MIN + tenths t * (PWM_MAX - PWM_MIN) div 100"
  by (simp add: controlFan_band [OF assms])

subsection \<open>Arithmetic of the interpolation branch\<close>

lemma band_drive_bounds:
  assumes "0 \<le> x" "x \<le> (99::int)"
  shows "0 \<le> x * (PWM_MAX - PWM_MIN) div 100" "x * (PWM_MAX - PWM_MIN) div 100 \<le> 153"
  using assms by (simp_all add: config_defs)

lemma mod5: "(x * 155) mod 100 \<le> (95::int)"
proof -
  have "(x * 155) mod 100 = (5 * (x * 31)) mod (5 * 20)" by (simp add: algebra_simps)
  also have "\<dots> = 5 * ((x * 31) mod 20)" by (simp only: mult_mod_right)
  also have "\<dots> \<le> 5 * 19"
  proof -
    have "(x * 31) mod 20 < 20" by simp
    then show ?thesis by simp
  qed
  finally show ?thesis by simp
qed

lemma band_pwm_le_linear:
  assumes "TEMP_FAN_ON \<le> t" "t < TEMP_FAN_MAX"
  shows "real_of_int (PWM_MIN + tenths t * (PWM_MAX - PWM_MIN) div 100) \<le> linear_drive t"
    and "linear_drive t - real_of_int (PWM_MIN + tenths t * (PWM_MAX - PWM_MIN) div 100) < 5 / 2"
proof -
  define x where "x = tenths t"
  define q where "q = x * 155 div 100"
  define r where "r = x * 155 mod 100"
  define d where "d = (t - 85) * 10"
  have x: "x = \<lfloor>d\<rfloor>" by (simp add: x_def d_def tenths_def config_defs)
  have lo: "real_of_int x \<le> d" unfolding x by (rule of_int_floor_le)
  have hi: "d < real_of_int x + 1" unfolding x by linarith
  have "x * 155 = 100 * q + r" unfolding q_def r_def by (rule mult_div_mod_eq [symmetric])
  then have "real_of_int (x * 155) = real_of_int (100 * q + r)" by simp
  then have e: "155 * real_of_int x = 100 * real_of_int q + real_of_int r" by simp
  have r0: "0 \<le> real_of_int r" unfolding r_def by simp
  have "r \<le> 95" unfolding r_def by (rule mod5)
  then have r1: "real_of_int r \<le> 95" by simp
  have lin: "linear_drive t = 100 + 155 * d / 100"
    by (simp add: linear_drive_def config_defs d_def)
  have pwm: "real_of_int (PWM_MIN + tenths t * (PWM_MAX - PWM_MIN) div 100) = 100 + real_of_int q"
    by (simp add: config_defs q_def x_def)
  show "real_of_int (PWM_MIN + tenths t * (PWM_MAX - PWM_MIN) div 100) \<le> linear_drive t"
    unfolding lin pwm using lo e r0 by simp
  show "linear_drive t - real_of_int (PWM_MIN + tenths t * (PWM_MAX - PWM_MIN) div 100) < 5 / 2"
    unfolding lin pwm using hi e r1 by simp
qed

lemma tenths_mono: "t1 \<le> t2 \<Longrightarrow> tenths t1 \<le> tenths t2"
  unfolding tenths_def by (rule floor_mono) simp

lemma band_pwm_mono:
  "t1 \<le> t2 \<Longrightarrow> PWM_MIN + tenths t1 * (PWM_MAX - PWM_MIN) div 100
       \<le> PWM_MIN + tenths t2 * (PWM_MAX - PWM_MIN) div 100"
  using tenths_mono [of t1 t2] by (simp add: config_defs zdiv_mono1)

lemma band_pwm_range:
  assumes "TEMP_FAN_ON \<le> t" "t < TEMP_FAN_MAX"
  shows "PWM_MIN \<le> PWM_MIN + tenths t * (PWM_MAX - PWM_MIN) div 100"
    and "PWM_MIN + tenths t * (PWM_MAX - PWM_MIN) div 100 \<le> PWM_MAX - 2"
  using band_drive_bounds [OF tenths_range [OF assms]] by (simp_all add: config_defs)

lemma tenths_top:
  assumes "TEMP_FAN_MAX - 1 / 10 \<le> t" "t < TEMP_FAN_MAX"
  shows "tenths t = 99"
proof -
  have "99 \<le> (t - TEMP_FAN_ON) * 10" "(t - TEMP_FAN_ON) * 10 < 100"
    using assms by (simp_all add: config_defs)
  then show ?thesis unfolding tenths_def by (simp add: floor_eq_iff)
qed

subsection \<open>Facts about the state\<close>

text \<open>The relay pin and \<open>fanActive\<close> agree in every state the sketch can be in.\<close>

lemma reachable_coupled: "reachable s \<Longrightarrow> relayPin s = fanActive s"
proof (induction rule: reachable.induct)
  case reachable_setup
  show ?case by (simp add: setup_state_def config_defs)
next
  case (reachable_tick s temp)
  show ?case
  proof (cases temp rule: controlFan_cases)
    case max then show ?thesis by (simp add: controlFan_max config_defs)
  next
    case (band t) then show ?thesis by (simp add: controlFan_band config_defs)
  next
    case off then show ?thesis by (simp add: controlFan_off config_defs)
  next
    case hold then show ?thesis using reachable_tick.IH by (simp add: controlFan_hold)
  qed
qed

lemma active_iff_drive:
  "fanActive (controlFan temp s) \<longleftrightarrow> pwmPin (controlFan temp s) \<noteq> 0"
proof (cases temp rule: controlFan_cases)
  case max then show ?thesis by (simp add: controlFan_max config_defs)
next
  case (band t)
  then show ?thesis using band_pwm_range(1) [of t] by (simp add: controlFan_band config_defs)
next
  case off then show ?thesis by (simp add: controlFan_off)
next
  case hold then show ?thesis by (simp add: controlFan_hold config_defs)
qed

lemma drive_range:
  "pwmPin (controlFan temp s) = 0 \<or>
   (PWM_MIN \<le> pwmPin (controlFan temp s) \<and> pwmPin (controlFan temp s) \<le> PWM_MAX)"
proof (cases temp rule: controlFan_cases)
  case max then show ?thesis by (simp add: controlFan_max config_defs)
next
  case (band t)
  then show ?thesis using band_pwm_range [of t] by (simp add: controlFan_band)
next
  case off then show ?thesis by (simp add: controlFan_off)
next
  case hold then show ?thesis by (simp add: controlFan_hold config_defs)
qed

text \<open>A call reads nothing of the state but \<open>fanActive\<close>, and leaves the relay pin alone in
  the last branch.\<close>

lemma step_same:
  assumes "fanActive s = fanActive s'" "relayPin s = relayPin s'"
  shows "controlFan temp s = controlFan temp s'"
proof (cases temp rule: controlFan_cases)
  case max then show ?thesis by (simp add: controlFan_max)
next
  case (band t) then show ?thesis by (simp add: controlFan_band)
next
  case off then show ?thesis by (simp add: controlFan_off)
next
  case hold then show ?thesis using assms by (simp add: controlFan_hold)
qed


lemma trace_same:
  "reachable s \<Longrightarrow> reachable s' \<Longrightarrow> fanActive s = fanActive s' \<Longrightarrow> trace temps s = trace temps s'"
proof (cases temps)
  case Nil then show ?thesis by simp
next
  case (Cons temp rest)
  assume "reachable s" "reachable s'" "fanActive s = fanActive s'"
  then have "controlFan temp s = controlFan temp s'"
    by (intro step_same) (simp_all add: reachable_coupled)
  then show ?thesis using Cons by simp
qed

section \<open>The claims\<close>

text \<open>
  \<^bold>\<open>C1\<close> (as amended). For every temperature with \<open>TEMP_FAN_ON \<le> temp < TEMP_FAN_MAX\<close>
  and every prior state, \<open>controlFan\<close> switches the relay on, sets \<open>fanActive\<close> and writes
  the drive \<open>PWM_MIN + \<lfloor>(temp - TEMP_FAN_ON) * 10\<rfloor> * (PWM_MAX - PWM_MIN) div 100\<close>. This
  integer is the linear interpolation \<open>linear_drive temp\<close> rounded down in two places: it
  never exceeds the interpolation and stays less than 2.5 below it. It is not equal to the
  interpolation in general.
\<close>

theorem interpolation_band_drive:
  assumes "float_ge temp TEMP_FAN_ON" and "float_lt temp TEMP_FAN_MAX"
  shows "\<exists>t. temp = Finite t \<and>
           pwmPin (controlFan temp s) =
             PWM_MIN + \<lfloor>(t - TEMP_FAN_ON) * 10\<rfloor> * (PWM_MAX - PWM_MIN) div 100 \<and>
           real_of_int (pwmPin (controlFan temp s)) \<le> linear_drive t \<and>
           linear_drive t - real_of_int (pwmPin (controlFan temp s)) < 5 / 2 \<and>
           relayPin (controlFan temp s) = HIGH \<and>
           fanActive (controlFan temp s) = True"
proof -
  from assms obtain t where t: "temp = Finite t" "TEMP_FAN_ON \<le> t" "t < TEMP_FAN_MAX"
    using band_finite by blast
  have step: "controlFan temp s =
      \<lparr>fanActive = True, relayPin = HIGH,
       pwmPin = PWM_MIN + tenths t * (PWM_MAX - PWM_MIN) div 100\<rparr>"
    unfolding t(1) using t(2,3) by (rule controlFan_band)
  have "pwmPin (controlFan temp s) =
      PWM_MIN + \<lfloor>(t - TEMP_FAN_ON) * 10\<rfloor> * (PWM_MAX - PWM_MIN) div 100"
    unfolding step by (simp add: tenths_def)
  moreover have "real_of_int (pwmPin (controlFan temp s)) \<le> linear_drive t"
    unfolding step using band_pwm_le_linear(1) [OF t(2,3)] by simp
  moreover have "linear_drive t - real_of_int (pwmPin (controlFan temp s)) < 5 / 2"
    unfolding step using band_pwm_le_linear(2) [OF t(2,3)] by simp
  moreover have "relayPin (controlFan temp s) = HIGH" "fanActive (controlFan temp s) = True"
    unfolding step by simp_all
  ultimately show ?thesis using t(1) by blast
qed

text \<open>The theorem at 90 degrees, from the state after \<open>setup\<close>: the drive is 177.\<close>

theorem interpolation_band_drive_witness:
  "float_ge (Finite 90) TEMP_FAN_ON \<and> float_lt (Finite 90) TEMP_FAN_MAX \<and>
   pwmPin (controlFan (Finite 90) setup_state) = 177 \<and>
   real_of_int (pwmPin (controlFan (Finite 90) setup_state)) \<le> linear_drive 90 \<and>
   linear_drive 90 - real_of_int (pwmPin (controlFan (Finite 90) setup_state)) < 5 / 2 \<and>
   relayPin (controlFan (Finite 90) setup_state) = HIGH \<and>
   fanActive (controlFan (Finite 90) setup_state) = True"
proof -
  have ge: "float_ge (Finite 90) TEMP_FAN_ON" by (simp add: config_defs)
  have lt: "float_lt (Finite 90) TEMP_FAN_MAX" by (simp add: config_defs)
  show ?thesis
    using interpolation_band_drive [OF ge lt, of setup_state] ge lt
    by (simp add: config_defs)
qed

text \<open>
  The claim as stated asks for equality with the linear interpolation. At 90 degrees the
  interpolation is 177.5 and the drive written is 177.
\<close>

theorem interpolation_not_exact_linear:
  "float_ge (Finite 90) TEMP_FAN_ON \<and> float_lt (Finite 90) TEMP_FAN_MAX \<and>
   pwmPin (controlFan (Finite 90) setup_state) = 177 \<and>
   linear_drive 90 = 355 / 2 \<and>
   real_of_int (pwmPin (controlFan (Finite 90) setup_state)) \<noteq> linear_drive 90"
proof -
  have "controlFan (Finite 90) setup_state =
      \<lparr>fanActive = True, relayPin = HIGH,
       pwmPin = PWM_MIN + tenths 90 * (PWM_MAX - PWM_MIN) div 100\<rparr>"
    by (rule controlFan_band) (simp_all add: config_defs)
  then have "pwmPin (controlFan (Finite 90) setup_state) = 177"
    by (simp add: tenths_def config_defs)
  moreover have "linear_drive 90 = 355 / 2"
    by (simp add: linear_drive_def config_defs)
  ultimately show ?thesis by (simp add: config_defs)
qed

text \<open>
  \<^bold>\<open>C2\<close>. For every temperature with
  \<open>TEMP_FAN_ON - TEMP_HYSTERESIS \<le> temp < TEMP_FAN_ON\<close> and every prior state: the call writes
  the drive \<open>PWM_MIN\<close> if \<open>fanActive\<close> was true and the drive 0 if it was false, it leaves
  the relay pin at the level it had, and it leaves \<open>fanActive\<close> as it was. In every state
  the sketch can be in, that unchanged relay level is on if \<open>fanActive\<close> was true and off if
  it was false.
\<close>

theorem hysteresis_band_hold:
  assumes "float_ge temp (TEMP_FAN_ON - TEMP_HYSTERESIS)" and "float_lt temp TEMP_FAN_ON"
  shows "pwmPin (controlFan temp s) = (if fanActive s then PWM_MIN else 0) \<and>
         relayPin (controlFan temp s) = relayPin s \<and>
         fanActive (controlFan temp s) = fanActive s \<and>
         (reachable s \<longrightarrow> relayPin (controlFan temp s) = (if fanActive s then HIGH else LOW))"
proof -
  from assms obtain t where t: "temp = Finite t" "TEMP_FAN_ON - TEMP_HYSTERESIS \<le> t" "t < TEMP_FAN_ON"
    using band_finite by blast
  have "\<not> float_ge temp TEMP_FAN_ON" "\<not> float_lt temp (TEMP_FAN_ON - TEMP_HYSTERESIS)"
    using t by simp_all
  then have step: "controlFan temp s = s\<lparr>pwmPin := (if fanActive s then PWM_MIN else 0)\<rparr>"
    by (rule controlFan_hold)
  have drive: "pwmPin (controlFan temp s) = (if fanActive s then PWM_MIN else 0)"
    unfolding step by simp
  have relay: "relayPin (controlFan temp s) = relayPin s"
    unfolding step by simp
  have flag: "fanActive (controlFan temp s) = fanActive s"
    unfolding step by simp
  have "relayPin (controlFan temp s) = (if fanActive s then HIGH else LOW)" if "reachable s"
  proof -
    have "relayPin s = fanActive s" using that by (rule reachable_coupled)
    then show ?thesis unfolding relay by (simp add: config_defs)
  qed
  with drive relay flag show ?thesis by blast
qed

text \<open>
  The theorem at 83 degrees, once after a tick at 96 degrees, where the duty changes from
  255 to 100, and once right after \<open>setup\<close>.
\<close>

theorem hysteresis_band_hold_witness:
  "float_ge (Finite 83) (TEMP_FAN_ON - TEMP_HYSTERESIS) \<and> float_lt (Finite 83) TEMP_FAN_ON \<and>
   reachable (controlFan (Finite 96) setup_state) \<and>
   fanActive (controlFan (Finite 96) setup_state) = True \<and>
   pwmPin (controlFan (Finite 96) setup_state) = 255 \<and>
   pwmPin (controlFan (Finite 83) (controlFan (Finite 96) setup_state)) = 100 \<and>
   relayPin (controlFan (Finite 83) (controlFan (Finite 96) setup_state)) =
     relayPin (controlFan (Finite 96) setup_state) \<and>
   relayPin (controlFan (Finite 83) (controlFan (Finite 96) setup_state)) = True \<and>
   fanActive (controlFan (Finite 83) (controlFan (Finite 96) setup_state)) = True \<and>
   reachable setup_state \<and>
   fanActive setup_state = False \<and>
   pwmPin (controlFan (Finite 83) setup_state) = 0 \<and>
   relayPin (controlFan (Finite 83) setup_state) = relayPin setup_state \<and>
   relayPin (controlFan (Finite 83) setup_state) = False \<and>
   fanActive (controlFan (Finite 83) setup_state) = False"
proof -
  have ge: "float_ge (Finite 83) (TEMP_FAN_ON - TEMP_HYSTERESIS)" by (simp add: config_defs)
  have lt: "float_lt (Finite 83) TEMP_FAN_ON" by (simp add: config_defs)
  have r0: "reachable setup_state" by (rule reachable_setup)
  have r1: "reachable (controlFan (Finite 96) setup_state)" using r0 by (rule reachable_tick)
  have s1: "controlFan (Finite 96) setup_state = \<lparr>fanActive = True, relayPin = True, pwmPin = 255\<rparr>"
    by (simp add: controlFan_max config_defs)
  have a1: "fanActive (controlFan (Finite 96) setup_state) = True"
    "pwmPin (controlFan (Finite 96) setup_state) = 255"
    by (simp_all add: s1)
  have a0: "fanActive setup_state = False" by (simp add: setup_state_def)
  have h1:
    "pwmPin (controlFan (Finite 83) (controlFan (Finite 96) setup_state)) = 100"
    "relayPin (controlFan (Finite 83) (controlFan (Finite 96) setup_state)) =
       relayPin (controlFan (Finite 96) setup_state)"
    "relayPin (controlFan (Finite 83) (controlFan (Finite 96) setup_state)) = True"
    "fanActive (controlFan (Finite 83) (controlFan (Finite 96) setup_state)) = True"
    using hysteresis_band_hold [OF ge lt, of "controlFan (Finite 96) setup_state",
        unfolded a1(1) if_True PWM_MIN_def HIGH_def] r1
    by blast+
  have h0:
    "pwmPin (controlFan (Finite 83) setup_state) = 0"
    "relayPin (controlFan (Finite 83) setup_state) = relayPin setup_state"
    "relayPin (controlFan (Finite 83) setup_state) = False"
    "fanActive (controlFan (Finite 83) setup_state) = False"
    using hysteresis_band_hold [OF ge lt, of setup_state,
        unfolded a0 if_False LOW_def] r0
    by blast+
  show ?thesis
    using ge lt r0 r1 a0 a1 h0 h1 by blast
qed

text \<open>
  \<^bold>\<open>C3\<close>. After every call from a reachable state, \<open>fanActive\<close> is true exactly when the
  drive written by that call is not zero. And \<open>fanActive\<close> is all that is carried from one
  call to the next: two reachable states with the same \<open>fanActive\<close> produce the same states
  after every tick of any further run.
\<close>

theorem fanActive_iff_drive_nonzero:
  assumes "reachable s" and "reachable s'" and "fanActive s = fanActive s'"
  shows "(fanActive (controlFan temp s) \<longleftrightarrow> pwmPin (controlFan temp s) \<noteq> 0) \<and>
         trace temps s = trace temps s'"
  using active_iff_drive [of temp s] trace_same [OF assms, of temps] by simp

text \<open>
  The theorem at two reachable states that differ (the duty last written is 177 in one and
  255 in the other) and agree on \<open>fanActive\<close>.
\<close>

theorem fanActive_iff_drive_nonzero_witness:
  "reachable (controlFan (Finite 90) setup_state) \<and>
   reachable (controlFan (Finite 96) setup_state) \<and>
   fanActive (controlFan (Finite 90) setup_state) = fanActive (controlFan (Finite 96) setup_state) \<and>
   controlFan (Finite 90) setup_state \<noteq> controlFan (Finite 96) setup_state \<and>
   (fanActive (controlFan (Finite 83) (controlFan (Finite 90) setup_state)) \<longleftrightarrow>
      pwmPin (controlFan (Finite 83) (controlFan (Finite 90) setup_state)) \<noteq> 0) \<and>
   trace [Finite 83, Finite 78] (controlFan (Finite 90) setup_state) =
   trace [Finite 83, Finite 78] (controlFan (Finite 96) setup_state)"
proof -
  have r1: "reachable (controlFan (Finite 90) setup_state)"
    by (intro reachable.intros)
  have r2: "reachable (controlFan (Finite 96) setup_state)"
    by (intro reachable.intros)
  have s1: "controlFan (Finite 90) setup_state = \<lparr>fanActive = True, relayPin = True, pwmPin = 177\<rparr>"
    by (simp add: controlFan_band tenths_def config_defs)
  have s2: "controlFan (Finite 96) setup_state = \<lparr>fanActive = True, relayPin = True, pwmPin = 255\<rparr>"
    by (simp add: controlFan_max config_defs)
  have eq: "fanActive (controlFan (Finite 90) setup_state) = fanActive (controlFan (Finite 96) setup_state)"
    by (simp add: s1 s2)
  have ne: "controlFan (Finite 90) setup_state \<noteq> controlFan (Finite 96) setup_state"
    by (simp add: s1 s2)
  show ?thesis
    using fanActive_iff_drive_nonzero [OF r1 r2 eq, of "Finite 83" "[Finite 83, Finite 78]"] r1 r2 eq ne
    by blast
qed

text \<open>
  \<^bold>\<open>C4\<close>. For every argument (finite, infinite or NaN) and every prior state the drive
  written is not negative, does not exceed \<open>PWM_MAX\<close>, and is 0 or lies in
  \<open>[PWM_MIN, PWM_MAX]\<close>.
\<close>

theorem drive_in_range:
  "0 \<le> pwmPin (controlFan temp s) \<and> pwmPin (controlFan temp s) \<le> PWM_MAX \<and>
   (pwmPin (controlFan temp s) = 0 \<or>
    (PWM_MIN \<le> pwmPin (controlFan temp s) \<and> pwmPin (controlFan temp s) \<le> PWM_MAX))"
  using drive_range [of temp s] by (auto simp add: config_defs)

text \<open>
  \<^bold>\<open>C5\<close> (as amended). On the interpolation band the drive is monotonically
  non-decreasing in the temperature and equals \<open>PWM_MIN\<close> at \<open>TEMP_FAN_ON\<close>. It does not tend
  to \<open>PWM_MAX\<close>: on the whole band it stays at or below \<open>PWM_MAX - 2\<close>, the value it has
  from 94.9 degrees on.
\<close>

theorem interpolation_monotone:
  assumes "TEMP_FAN_ON \<le> t1" and "t1 \<le> t2" and "t2 < TEMP_FAN_MAX"
  shows "pwmPin (controlFan (Finite t1) s) \<le> pwmPin (controlFan (Finite t2) s') \<and>
         pwmPin (controlFan (Finite TEMP_FAN_ON) s) = PWM_MIN \<and>
         pwmPin (controlFan (Finite t2) s') \<le> PWM_MAX - 2 \<and>
         (TEMP_FAN_MAX - 1 / 10 \<le> t2 \<longrightarrow> pwmPin (controlFan (Finite t2) s') = PWM_MAX - 2)"
proof -
  have b1: "TEMP_FAN_ON \<le> t1" "t1 < TEMP_FAN_MAX" using assms by simp_all
  have b2: "TEMP_FAN_ON \<le> t2" "t2 < TEMP_FAN_MAX" using assms by simp_all
  have b0: "TEMP_FAN_ON \<le> TEMP_FAN_ON" "TEMP_FAN_ON < TEMP_FAN_MAX" by (simp_all add: config_defs)
  have "pwmPin (controlFan (Finite t1) s) \<le> pwmPin (controlFan (Finite t2) s')"
    unfolding band_pwm_value [OF b1] band_pwm_value [OF b2] using assms(2) by (rule band_pwm_mono)
  moreover have "pwmPin (controlFan (Finite TEMP_FAN_ON) s) = PWM_MIN"
    unfolding band_pwm_value [OF b0] by (simp add: tenths_def)
  moreover have "pwmPin (controlFan (Finite t2) s') \<le> PWM_MAX - 2"
    unfolding band_pwm_value [OF b2] using b2 by (rule band_pwm_range(2))
  moreover have "pwmPin (controlFan (Finite t2) s') = PWM_MAX - 2" if "TEMP_FAN_MAX - 1 / 10 \<le> t2"
    unfolding band_pwm_value [OF b2] tenths_top [OF that b2(2)] by (simp add: config_defs)
  ultimately show ?thesis by blast
qed

text \<open>The theorem at 90 and 94.9375 degrees.\<close>

theorem interpolation_monotone_witness:
  "TEMP_FAN_ON \<le> 90 \<and> (90::real) \<le> 1519 / 16 \<and> 1519 / 16 < TEMP_FAN_MAX \<and>
   TEMP_FAN_MAX - 1 / 10 \<le> 1519 / 16 \<and>
   pwmPin (controlFan (Finite 90) setup_state) \<le> pwmPin (controlFan (Finite (1519 / 16)) setup_state) \<and>
   pwmPin (controlFan (Finite TEMP_FAN_ON) setup_state) = PWM_MIN \<and>
   pwmPin (controlFan (Finite (1519 / 16)) setup_state) = PWM_MAX - 2"
proof -
  have h: "TEMP_FAN_ON \<le> 90" "(90::real) \<le> 1519 / 16" "1519 / 16 < TEMP_FAN_MAX"
    "TEMP_FAN_MAX - 1 / 10 \<le> 1519 / 16"
    by (simp_all add: config_defs)
  show ?thesis
    using interpolation_monotone [OF h(1,2,3), of setup_state setup_state] h by blast
qed

text \<open>
  The claim as stated says that the drive tends to \<open>PWM_MAX\<close> as the temperature tends to
  \<open>TEMP_FAN_MAX\<close> from below. It does not; at \<open>95 - 1/128\<close> degrees the drive is 253.
\<close>

theorem drive_does_not_approach_max:
  "\<not> filterlim (\<lambda>t. real_of_int (pwmPin (controlFan (Finite t) setup_state)))
       (nhds (real_of_int PWM_MAX)) (at_left TEMP_FAN_MAX) \<and>
   pwmPin (controlFan (Finite (95 - 1 / 128)) setup_state) = 253"
proof
  let ?f = "\<lambda>t. real_of_int (pwmPin (controlFan (Finite t) setup_state))"
  show "\<not> filterlim ?f (nhds (real_of_int PWM_MAX)) (at_left TEMP_FAN_MAX)"
  proof
    assume "filterlim ?f (nhds (real_of_int PWM_MAX)) (at_left TEMP_FAN_MAX)"
    then have "eventually (\<lambda>t. dist (?f t) (real_of_int PWM_MAX) < 1) (at_left TEMP_FAN_MAX)"
      by (rule tendstoD) simp
    then obtain b where b: "b < TEMP_FAN_MAX"
      "\<forall>y>b. y < TEMP_FAN_MAX \<longrightarrow> dist (?f y) (real_of_int PWM_MAX) < 1"
      unfolding eventually_at_left_field by blast
    define y where "y = max ((b + TEMP_FAN_MAX) / 2) TEMP_FAN_ON"
    have y: "b < y" "y < TEMP_FAN_MAX" "TEMP_FAN_ON \<le> y"
      using b(1) by (simp_all add: y_def config_defs max_def)
    have "dist (?f y) (real_of_int PWM_MAX) < 1" using b(2) y by blast
    moreover have "pwmPin (controlFan (Finite y) setup_state) \<le> PWM_MAX - 2"
      unfolding band_pwm_value [OF y(3,2)] using y(3,2) by (rule band_pwm_range(2))
    ultimately show False by (simp add: dist_real_def)
  qed
  have "TEMP_FAN_ON \<le> 95 - 1 / 128" "95 - 1 / 128 < TEMP_FAN_MAX" by (simp_all add: config_defs)
  then have "pwmPin (controlFan (Finite (95 - 1 / 128)) setup_state) =
      PWM_MIN + tenths (95 - 1 / 128) * (PWM_MAX - PWM_MIN) div 100"
    by (rule band_pwm_value)
  then show "pwmPin (controlFan (Finite (95 - 1 / 128)) setup_state) = 253"
    by (simp add: tenths_def config_defs)
qed

text \<open>
  \<^bold>\<open>C6\<close>. With the constants of the sketch (85, 95, 5, 100, 255) and the state after
  \<open>setup\<close>, the temperatures 70, 90, 96, 83, 78 give the drives 0, 177, 255, 100, 0;
  \<open>fanActive\<close> is true before the tick at 83 degrees, and the last tick leaves the fan off.
\<close>

theorem scenario_drive_sequence:
  "TEMP_FAN_ON = 85 \<and> TEMP_FAN_MAX = 95 \<and> TEMP_HYSTERESIS = 5 \<and> PWM_MIN = 100 \<and> PWM_MAX = 255 \<and>
   fanActive setup_state = False \<and>
   map pwmPin (trace [Finite 70, Finite 90, Finite 96, Finite 83, Finite 78] setup_state) =
     [0, 177, 255, 100, 0] \<and>
   fanActive (run [Finite 70, Finite 90, Finite 96] setup_state) = True \<and>
   fanActive (run [Finite 70, Finite 90, Finite 96, Finite 83, Finite 78] setup_state) = False \<and>
   relayPin (run [Finite 70, Finite 90, Finite 96, Finite 83, Finite 78] setup_state) = LOW"
  by (simp add: controlFan_def config_defs setup_state_def map_long_def
      analogWrite_pwm_def digitalWrite_relay_def)

text \<open>
  \<^bold>\<open>C7\<close>. For every temperature \<open>temp \<ge> TEMP_FAN_MAX\<close> and every prior state the call
  writes the drive \<open>PWM_MAX\<close>, switches the relay on and sets \<open>fanActive\<close>.
\<close>

theorem max_band_full_drive:
  assumes "float_ge temp TEMP_FAN_MAX"
  shows "pwmPin (controlFan temp s) = PWM_MAX \<and> relayPin (controlFan temp s) = HIGH \<and>
         fanActive (controlFan temp s) = True"
  by (simp add: controlFan_max [OF assms])

text \<open>The theorem at 96 degrees.\<close>

theorem max_band_full_drive_witness:
  "float_ge (Finite 96) TEMP_FAN_MAX \<and>
   pwmPin (controlFan (Finite 96) setup_state) = PWM_MAX \<and>
   relayPin (controlFan (Finite 96) setup_state) = HIGH \<and>
   fanActive (controlFan (Finite 96) setup_state) = True"
proof -
  have ge: "float_ge (Finite 96) TEMP_FAN_MAX" by (simp add: config_defs)
  show ?thesis using max_band_full_drive [OF ge, of setup_state] ge by blast
qed

text \<open>
  \<^bold>\<open>C8\<close>. For every temperature \<open>temp < TEMP_FAN_ON - TEMP_HYSTERESIS\<close> and every prior
  state the call writes the drive 0, switches the relay off and clears \<open>fanActive\<close>.
\<close>

theorem below_hysteresis_off:
  assumes "float_lt temp (TEMP_FAN_ON - TEMP_HYSTERESIS)"
  shows "pwmPin (controlFan temp s) = 0 \<and> relayPin (controlFan temp s) = LOW \<and>
         fanActive (controlFan temp s) = False"
  by (simp add: controlFan_off [OF assms])

text \<open>The theorem at 78 degrees, from a state with the fan running.\<close>

theorem below_hysteresis_off_witness:
  "float_lt (Finite 78) (TEMP_FAN_ON - TEMP_HYSTERESIS) \<and>
   fanActive (controlFan (Finite 96) setup_state) = True \<and>
   pwmPin (controlFan (Finite 78) (controlFan (Finite 96) setup_state)) = 0 \<and>
   relayPin (controlFan (Finite 78) (controlFan (Finite 96) setup_state)) = LOW \<and>
   fanActive (controlFan (Finite 78) (controlFan (Finite 96) setup_state)) = False"
proof -
  have lt: "float_lt (Finite 78) (TEMP_FAN_ON - TEMP_HYSTERESIS)" by (simp add: config_defs)
  have a: "fanActive (controlFan (Finite 96) setup_state) = True"
    by (simp add: controlFan_max config_defs)
  show ?thesis
    using below_hysteresis_off [OF lt, of "controlFan (Finite 96) setup_state"] lt a by blast
qed




text \<open>
  \<^bold>\<open>C10\<close>. \<open>setup\<close> leaves \<open>fanActive\<close> false, the relay pin low and the duty 0, and
  after every call from a reachable state the relay pin is high exactly when \<open>fanActive\<close>
  is true.
\<close>

theorem relay_follows_fanActive:
  assumes "reachable s"
  shows "fanActive setup_state = False \<and> relayPin setup_state = LOW \<and> pwmPin setup_state = 0 \<and>
         (relayPin (controlFan temp s) = HIGH \<longleftrightarrow> fanActive (controlFan temp s))"
proof -
  have "reachable (controlFan temp s)" using assms by (rule reachable_tick)
  then have "relayPin (controlFan temp s) = fanActive (controlFan temp s)"
    by (rule reachable_coupled)
  then show ?thesis by (simp add: setup_state_def config_defs)
qed

text \<open>The theorem at a tick in the hysteresis band (82 degrees) after a tick at 90 degrees.\<close>

theorem relay_follows_fanActive_witness:
  "reachable (controlFan (Finite 90) setup_state) \<and>
   fanActive (controlFan (Finite 90) setup_state) = True \<and>
   relayPin (controlFan (Finite 90) setup_state) = HIGH \<and>
   (relayPin (controlFan (Finite 82) (controlFan (Finite 90) setup_state)) = HIGH \<longleftrightarrow>
    fanActive (controlFan (Finite 82) (controlFan (Finite 90) setup_state))) \<and>
   fanActive (controlFan (Finite 82) (controlFan (Finite 90) setup_state)) = True"
proof -
  have r1: "reachable (controlFan (Finite 90) setup_state)" by (intro reachable.intros)
  have s1: "controlFan (Finite 90) setup_state = \<lparr>fanActive = True, relayPin = True, pwmPin = 177\<rparr>"
    by (simp add: controlFan_band tenths_def config_defs)
  have a: "fanActive (controlFan (Finite 90) setup_state) = True"
    "relayPin (controlFan (Finite 90) setup_state) = HIGH"
    by (simp_all add: s1 config_defs)
  have h: "fanActive (controlFan (Finite 82) (controlFan (Finite 90) setup_state)) = True"
    unfolding s1 by (simp add: controlFan_hold config_defs)
  show ?thesis
    using relay_follows_fanActive [OF r1, of "Finite 82"] r1 a h by blast
qed

end
